theory Spec2Isabelle
  imports Main
begin

section \<open>Requests (src/request.js)\<close>

text \<open>
  A \<open>Request\<close> object carries a type tag (\<open>""\<close> until one of the setters ran, then
  \<open>"http"\<close> or \<open>"lambda"\<close>), a name, a settings bag and an optional input callback.
  The settings of an HTTP request hold \<open>host\<close>, \<open>path\<close>, \<open>port\<close>, \<open>protocol\<close> and
  \<open>method\<close>. Each of the five is either not a property of the object (\<open>None\<close>) or a
  property whose value is \<open>null\<close> (\<open>Some None\<close>) or a string (\<open>Some (Some s)\<close>):
  \<open>hasOwnProperty\<close> tells the first case from the other two. A configuration object is
  modelled by these five documented properties; whatever else a caller put on the
  object is outside the model. The input callback is user code: the model keeps only
  whether one is attached (an opaque identifier).
\<close>

datatype request_type = NoType | HTTP | LAMBDA

record http_settings =
  host :: "string option option"
  path :: "string option option"
  port :: "string option option"
  protocol :: "string option option"
  method' :: "string option option"

datatype settings =
    EmptySettings
  | HttpSettings http_settings
  | LambdaSettings (function_arn: string) (qualifier: string)

record request =
  type' :: request_type
  name :: string
  settings :: settings
  inputFunc :: "nat option"

text \<open>Exceptions are values: \<open>new Error(message)\<close>, and the \<open>TypeError\<close> the runtime
  raises, for instance when a property of \<open>null\<close> is read. \<open>Unmodelled\<close> is not an
  exception of the program: it marks the few places where the answer depends on an
  object the model does not describe (the wrapper of a primitive, a host object).\<close>

datatype error = Error string | TypeError | Unmodelled

text \<open>\<open>new Request(name)\<close>.\<close>

definition Request :: "string \<Rightarrow> request" where
  "Request n = \<lparr>type' = NoType, name = n, settings = EmptySettings, inputFunc = None\<rparr>"

text \<open>
  \<open>_createHttpRequest\<close> receives either a url string or a configuration object
  (\<open>typeof null\<close> is \<open>'object'\<close> too, and \<open>null.hasOwnProperty\<close> raises). The two
  libraries it calls, \<open>valid-url\<close> (\<open>isUri\<close>) and Node's \<open>url\<close> (\<open>parse\<close>), are not
  part of the repository: they are parameters of the model. The fields of a parsed url
  are strings or \<open>null\<close>.
\<close>

datatype config = ConfigString string | ConfigObject http_settings | ConfigNull

datatype parsed_url =
  ParsedUrl (url_hostname: "string option") (url_path: "string option")
    (url_hash: "string option") (url_port: "string option") (url_protocol: "string option")

record url_library =
  isUri :: "string \<Rightarrow> bool"
  parse :: "string \<Rightarrow> parsed_url"

text \<open>\<open>String.prototype.toUpperCase\<close> on the ASCII letters (the verbs of \<open>Request.HttpVerb\<close>
  are ASCII); other characters are left as they are.\<close>

definition toUpperCaseChar :: "char \<Rightarrow> char" where
  "toUpperCaseChar c =
     (let n = (of_char c :: nat) in
      if 97 \<le> n \<and> n \<le> 122
      then (case c of Char b0 b1 b2 b3 b4 b5 b6 b7 \<Rightarrow> Char b0 b1 b2 b3 b4 False b6 b7)
      else c)"

definition toUpperCase :: "string \<Rightarrow> string" where
  "toUpperCase s = map toUpperCaseChar s"

definition orEmpty :: "string option \<Rightarrow> string" where
  "orEmpty v = (case v of None \<Rightarrow> [] | Some s \<Rightarrow> s)"

text \<open>\<open>config.hasOwnProperty(p)\<close> for one of the five properties.\<close>

definition hasOwnProperty :: "'a option \<Rightarrow> bool" where
  "hasOwnProperty p = (p \<noteq> None)"

text \<open>The function assigns \<open>type\<close> and an empty \<open>settings\<close> first and may then raise: the
  result is the exception, if any, and the object as the call leaves it.\<close>

definition createHttpRequest ::
  "url_library \<Rightarrow> string \<Rightarrow> config \<Rightarrow> request \<Rightarrow> error option \<times> request" where
  "createHttpRequest lib httpVerb cfg this =
     (let this1 = this\<lparr>type' := HTTP, settings := EmptySettings\<rparr> in
      case cfg of
        ConfigNull \<Rightarrow> (Some TypeError, this1)
      | ConfigObject c \<Rightarrow>
          if \<not> hasOwnProperty (host c) \<or> \<not> hasOwnProperty (path c)
             \<or> \<not> hasOwnProperty (protocol c) \<or> \<not> hasOwnProperty (method' c)
          then (Some (Error ''Invalid request configuration. Missing parameters''), this1)
          else (None, this1\<lparr>settings := HttpSettings c\<rparr>)
      | ConfigString s \<Rightarrow>
          if \<not> isUri lib s then (Some (Error (''Invalid request url: '' @ s)), this1)
          else
            (let parsedUrl = parse lib s in
             (None, this1\<lparr>settings := HttpSettings
                \<lparr>host = Some (url_hostname parsedUrl),
                 path = Some (Some (orEmpty (url_path parsedUrl) @ orEmpty (url_hash parsedUrl))),
                 port = Some (url_port parsedUrl),
                 protocol = Some (url_protocol parsedUrl),
                 method' = Some (Some (toUpperCase httpVerb))\<rparr>\<rparr>)))"

definition setHttpRequest ::
  "url_library \<Rightarrow> string \<Rightarrow> config \<Rightarrow> request \<Rightarrow> error + request" where
  "setHttpRequest lib httpVerb cfg this =
     (case createHttpRequest lib httpVerb cfg this of
        (Some e, _) \<Rightarrow> Inl e
      | (None, this') \<Rightarrow> Inr this')"

definition setGet :: "url_library \<Rightarrow> config \<Rightarrow> request \<Rightarrow> error + request" where
  "setGet lib cfg this = setHttpRequest lib ''GET'' cfg this"

text \<open>\<open>Request.get(name, config)\<close>.\<close>

definition get :: "url_library \<Rightarrow> string \<Rightarrow> config \<Rightarrow> error + request" where
  "get lib n cfg = setGet lib cfg (Request n)"

section \<open>The tree builder (src/rcoil.js)\<close>

text \<open>
  A request group is \<open>{id, requests, children}\<close>. The builder holds the forest \<open>calls\<close>,
  the cursor \<open>_tmpPositionId\<close> (the empty string is the root) and the counter
  \<open>_totalRequestGroups\<close>. Group ids are strings, as documented, so \<open>==\<close> is equality.
\<close>

datatype group = Group (group_id: string) (requests: "request list") (children: "group list")

record rcoil =
  calls :: "group list"
  tmpPositionId :: string
  totalRequestGroups :: nat

definition Rcoil :: rcoil where
  "Rcoil = \<lparr>calls = [], tmpPositionId = [], totalRequestGroups = 0\<rparr>"

text \<open>
  \<open>_findRequestGroup(this.calls, groupId)\<close> walks the forest with \<open>_traverseTree\<close>: for
  each group in array order it first tests the group itself, then descends into the
  group's properties (the \<open>requests\<close> array, whose Request objects have no \<open>id\<close> and so
  never match, then the \<open>children\<close> array), and only then moves to the next sibling. The
  first match in this pre-order is returned, \<open>null\<close> (\<open>None\<close>) when there is none.
\<close>

fun findRequestGroup :: "group list \<Rightarrow> string \<Rightarrow> group option" where
  "findRequestGroup [] groupId = None"
| "findRequestGroup (Group i rs cs # gs) groupId =
     (if i = groupId then Some (Group i rs cs)
      else (case findRequestGroup cs groupId of
              Some g \<Rightarrow> Some g
            | None \<Rightarrow> findRequestGroup gs groupId))"

text \<open>
  The builder mutates the object that \<open>_findRequestGroup\<close> returned (\<open>push\<close> on its
  \<open>children\<close> or \<open>requests\<close> array). In the model the forest is rebuilt with the
  change applied to exactly that node: the first match in pre-order.
\<close>

fun updateRequestGroup :: "(group \<Rightarrow> group) \<Rightarrow> group list \<Rightarrow> string \<Rightarrow> group list" where
  "updateRequestGroup f [] groupId = []"
| "updateRequestGroup f (Group i rs cs # gs) groupId =
     (if i = groupId then f (Group i rs cs) # gs
      else (case findRequestGroup cs groupId of
              Some g \<Rightarrow> Group i rs (updateRequestGroup f cs groupId) # gs
            | None \<Rightarrow> Group i rs cs # updateRequestGroup f gs groupId))"

definition createEmptyRequestGroup :: "string \<Rightarrow> group" where
  "createEmptyRequestGroup groupId = Group groupId [] []"

definition pushChild :: "group \<Rightarrow> group \<Rightarrow> group" where
  "pushChild c g = Group (group_id g) (requests g) (children g @ [c])"

definition pushRequest :: "request \<Rightarrow> group \<Rightarrow> group" where
  "pushRequest r g = Group (group_id g) (requests g @ [r]) (children g)"

text \<open>
  A builder call either returns (\<open>None\<close>) or raises; the second component is the builder
  as the call leaves it. \<open>startGroup\<close> raises before it changes anything: on a duplicate
  id, and when the cursor names no group (\<open>_findRequestGroup\<close> returns \<open>null\<close> and
  \<open>null.children\<close> is a TypeError).
\<close>

definition startGroup :: "string \<Rightarrow> rcoil \<Rightarrow> error option \<times> rcoil" where
  "startGroup groupId this =
     (if findRequestGroup (calls this) groupId \<noteq> None
      then (Some (Error (''Request Group '' @ groupId @ '' already exists in your Symphony'')), this)
      else if tmpPositionId this \<noteq> []
      then (case findRequestGroup (calls this) (tmpPositionId this) of
              None \<Rightarrow> (Some TypeError, this)
            | Some g \<Rightarrow>
                (None, this\<lparr>calls := updateRequestGroup (pushChild (createEmptyRequestGroup groupId))
                                        (calls this) (tmpPositionId this),
                             tmpPositionId := groupId,
                             totalRequestGroups := totalRequestGroups this + 1\<rparr>))
      else (None, this\<lparr>calls := calls this @ [createEmptyRequestGroup groupId],
                        tmpPositionId := groupId,
                        totalRequestGroups := totalRequestGroups this + 1\<rparr>))"

definition afterGroup :: "string \<Rightarrow> rcoil \<Rightarrow> rcoil" where
  "afterGroup groupId this = this\<lparr>tmpPositionId := groupId\<rparr>"

text \<open>The argument of \<open>addRequest\<close> is any value; \<open>instanceof Request\<close> tells the two
  cases apart.\<close>

datatype argument = RequestValue request | OtherValue

definition addRequest :: "argument \<Rightarrow> rcoil \<Rightarrow> error option \<times> rcoil" where
  "addRequest arg this =
     (if tmpPositionId this = []
      then (Some (Error ''Cannot add requests without starting a group first''), this)
      else (case arg of
              OtherValue \<Rightarrow> (Some (Error ''Invalid Request object''), this)
            | RequestValue r \<Rightarrow>
                (case findRequestGroup (calls this) (tmpPositionId this) of
                   None \<Rightarrow> (Some TypeError, this)
                 | Some g \<Rightarrow>
                     (None, this\<lparr>calls := updateRequestGroup (pushRequest r)
                                             (calls this) (tmpPositionId this)\<rparr>))))"

definition fromTheBeginning :: "rcoil \<Rightarrow> rcoil" where
  "fromTheBeginning this = this\<lparr>tmpPositionId := []\<rparr>"

definition requestGroupsCount :: "rcoil \<Rightarrow> nat" where
  "requestGroupsCount this = totalRequestGroups this"

text \<open>The ids of all groups of a forest, and the number of its groups.\<close>

fun groupIds :: "group list \<Rightarrow> string set" where
  "groupIds [] = {}"
| "groupIds (Group i rs cs # gs) = insert i (groupIds cs \<union> groupIds gs)"

fun countGroups :: "group list \<Rightarrow> nat" where
  "countGroups [] = 0"
| "countGroups (Group i rs cs # gs) = Suc (countGroups cs + countGroups gs)"


text \<open>A program of builder calls, run from \<open>new Rcoil()\<close>; a call that raises leaves the
  builder as it was and the program goes on (the caller caught the exception).\<close>

datatype builder_call =
    StartGroup string
  | AfterGroup string
  | AddRequest argument
  | FromTheBeginning

fun call :: "rcoil \<Rightarrow> builder_call \<Rightarrow> rcoil" where
  "call this (StartGroup groupId) = snd (startGroup groupId this)"
| "call this (AfterGroup groupId) = afterGroup groupId this"
| "call this (AddRequest arg) = snd (addRequest arg this)"
| "call this FromTheBeginning = fromTheBeginning this"

definition build :: "builder_call list \<Rightarrow> rcoil" where
  "build cs = foldl call Rcoil cs"

section \<open>Objects of the JavaScript runtime\<close>

text \<open>
  The context keeps its records in object literals used as dictionaries, so what a
  lookup or an assignment does is decided by the property semantics of the language:
  a read walks the prototype chain, an assignment (outside strict mode) is silently
  dropped on a property that is not writable, and \<open>__proto__\<close> is an accessor of
  \<open>Object.prototype\<close> that reads and re-links the prototype. The model has a heap of
  objects with these rules (ordinary \<open>[[Get]]\<close>, \<open>[[Set]]\<close> and \<open>[[SetPrototypeOf]]\<close> of
  ECMAScript). The built-in objects a program finds at start are the runtime's: the
  heap a context is created in is a parameter, with \<open>Object.prototype\<close> at address 0.

  Values are the primitives, references to objects of the heap, and host objects that
  the program only passes around (a Request, a headers table, an incoming message).
\<close>

datatype resp =
    HttpMessage (rs_headers: "(string \<times> string) list") (httpVersion: string)
      (rs_method: "string option") (statusCode: nat) (statusMessage: string)
  | LambdaError "string option"

datatype host =
    RequestObject request
  | HeadersObject "(string \<times> string) list"
  | MessageObject resp

datatype js =
    JUndefined
  | JNull
  | JBool bool
  | JNumber nat
  | JString string
  | JObject nat
  | JHost host

text \<open>A property is a data property (its value, and whether it is writable), the
  \<open>__proto__\<close> accessor, or an accessor whose getter and setter raise a TypeError (as
  \<open>caller\<close> and \<open>arguments\<close> of \<open>Function.prototype\<close> do).\<close>

datatype property = Data js bool | ProtoAccessor | ThrowTypeError

record object =
  properties :: "string \<rightharpoonup> property"
  prototype :: "nat option"
  extensible :: bool
  immutablePrototype :: bool

type_synonym heap = "object list"

definition objectPrototype :: nat where
  "objectPrototype = 0"

text \<open>The first property named \<open>k\<close> on the prototype chain of the object at \<open>a\<close>. A chain
  has no cycle, so it visits at most as many objects as the heap has: the fuel.\<close>

fun getProperty :: "nat \<Rightarrow> heap \<Rightarrow> nat \<Rightarrow> string \<Rightarrow> property option" where
  "getProperty 0 h a k = None"
| "getProperty (Suc n) h a k =
     (if a < length h
      then (case properties (h ! a) k of
              Some p \<Rightarrow> Some p
            | None \<Rightarrow> (case prototype (h ! a) of
                         None \<Rightarrow> None
                       | Some b \<Rightarrow> getProperty n h b k))
      else None)"

text \<open>\<open>o[k]\<close> for the object at \<open>a\<close>; the \<open>__proto__\<close> getter returns the prototype of the
  object the read started from.\<close>

definition Get :: "heap \<Rightarrow> nat \<Rightarrow> string \<Rightarrow> error + js" where
  "Get h a k =
     (case getProperty (length h) h a k of
        None \<Rightarrow> Inr JUndefined
      | Some (Data v w) \<Rightarrow> Inr v
      | Some ProtoAccessor \<Rightarrow>
          Inr (case prototype (h ! a) of None \<Rightarrow> JNull | Some b \<Rightarrow> JObject b)
      | Some ThrowTypeError \<Rightarrow> Inl TypeError)"

text \<open>\<open>v[k]\<close> for any value: reading a property of \<open>undefined\<close> or \<open>null\<close> raises.\<close>

definition getValue :: "heap \<Rightarrow> js \<Rightarrow> string \<Rightarrow> error + js" where
  "getValue h v k =
     (case v of
        JObject a \<Rightarrow> Get h a k
      | JUndefined \<Rightarrow> Inl TypeError
      | JNull \<Rightarrow> Inl TypeError
      | _ \<Rightarrow> Inl Unmodelled)"

text \<open>Whether the object at \<open>a\<close> is on the chain that starts at \<open>p\<close>.\<close>

fun reaches :: "nat \<Rightarrow> heap \<Rightarrow> nat option \<Rightarrow> nat \<Rightarrow> bool" where
  "reaches 0 h p a = False"
| "reaches (Suc n) h None a = False"
| "reaches (Suc n) h (Some b) a =
     (b = a \<or> (b < length h \<and> reaches n h (prototype (h ! b)) a))"

text \<open>\<open>[[SetPrototypeOf]]\<close>: \<open>None\<close> is the status \<open>false\<close> (the prototype is immutable,
  the object is not extensible, or the new chain would be cyclic).\<close>

definition setPrototypeOf :: "heap \<Rightarrow> nat \<Rightarrow> nat option \<Rightarrow> heap option" where
  "setPrototypeOf h a new =
     (if \<not> a < length h then None
      else if new = prototype (h ! a) then Some h
      else if immutablePrototype (h ! a) then None
      else if \<not> extensible (h ! a) then None
      else if reaches (length h) h new a then None
      else Some (h[a := (h ! a)\<lparr>prototype := new\<rparr>]))"

text \<open>The \<open>__proto__\<close> setter: a value that is neither an object nor \<open>null\<close> is ignored;
  a refused re-link raises a TypeError.\<close>

definition protoSetter :: "heap \<Rightarrow> nat \<Rightarrow> js \<Rightarrow> error + heap" where
  "protoSetter h a v =
     (case v of
        JNull \<Rightarrow> (case setPrototypeOf h a None of None \<Rightarrow> Inl TypeError | Some h' \<Rightarrow> Inr h')
      | JObject b \<Rightarrow>
          (case setPrototypeOf h a (Some b) of None \<Rightarrow> Inl TypeError | Some h' \<Rightarrow> Inr h')
      | JHost x \<Rightarrow> Inl Unmodelled
      | _ \<Rightarrow> Inr h)"

text \<open>
  \<open>o[k] = v\<close> for the object at \<open>a\<close>, outside strict mode. The property is looked up on the
  chain. A data property that is not writable, wherever it is found, makes the
  assignment a silent no-op; an accessor runs its setter; otherwise the value is
  written to the object itself: over its own property, or as a new own property when
  the object is extensible.
\<close>

definition Put :: "heap \<Rightarrow> nat \<Rightarrow> string \<Rightarrow> js \<Rightarrow> error + heap" where
  "Put h a k v =
     (case getProperty (length h) h a k of
        Some (Data u False) \<Rightarrow> Inr h
      | Some ThrowTypeError \<Rightarrow> Inl TypeError
      | Some ProtoAccessor \<Rightarrow> protoSetter h a v
      | _ \<Rightarrow>
          if \<not> a < length h then Inr h
          else if properties (h ! a) k = None \<and> \<not> extensible (h ! a) then Inr h
          else Inr (h[a := (h ! a)\<lparr>properties := (properties (h ! a))(k \<mapsto> Data v True)\<rparr>]))"

definition putValue :: "heap \<Rightarrow> js \<Rightarrow> string \<Rightarrow> js \<Rightarrow> error + heap" where
  "putValue h base k v =
     (case base of
        JObject a \<Rightarrow> Put h a k v
      | JUndefined \<Rightarrow> Inl TypeError
      | JNull \<Rightarrow> Inl TypeError
      | _ \<Rightarrow> Inl Unmodelled)"

text \<open>An object literal \<open>{k1: v1, ...}\<close> (distinct keys, none of them \<open>__proto__\<close>): a
  new extensible object whose prototype is \<open>Object.prototype\<close>; its address and the
  heap with it.\<close>

definition newObject :: "(string \<times> js) list \<Rightarrow> heap \<Rightarrow> nat \<times> heap" where
  "newObject ps h =
     (length h,
      h @ [\<lparr>properties = map_of (map (\<lambda>(k, v). (k, Data v True)) ps),
            prototype = Some objectPrototype, extensible = True,
            immutablePrototype = False\<rparr>])"

text \<open>Sequencing of calls that may raise.\<close>

definition andThen :: "error + 'a \<Rightarrow> ('a \<Rightarrow> error + 'b) \<Rightarrow> error + 'b" where
  "andThen r f = (case r of Inl e \<Rightarrow> Inl e | Inr x \<Rightarrow> f x)"

section \<open>The execution context (src/execution-context.js)\<close>

text \<open>
  The context holds two arrays, \<open>_activeGroups\<close> and \<open>_activeRequests\<close>, and two object
  literals used as dictionaries, \<open>_requests\<close> and \<open>_responses\<close>, keyed by group id and
  then by request name. The read-write lock runs every critical section to completion
  on the single JavaScript thread, so each method is a function on the context. The
  context carries the heap its two dictionaries live in.
\<close>

text \<open>\<open>registerActiveRequest\<close> pushes onto \<open>_activeGroups\<close>, so that array can hold
  request objects beside groups.\<close>

datatype active = ActiveGroup group | ActiveRequest request

record execution_context =
  heap :: heap
  activeGroups :: "active list"
  activeRequests :: "request list"
  requests' :: nat
  responses' :: nat

text \<open>\<open>new ExecutionContext()\<close> in a runtime whose heap is \<open>h\<close>.\<close>

definition ExecutionContext :: "heap \<Rightarrow> execution_context" where
  "ExecutionContext h =
     (let (rq, h1) = newObject [] h;
          (rs, h2) = newObject [] h1
      in \<lparr>heap = h2, activeGroups = [], activeRequests = [], requests' = rq,
          responses' = rs\<rparr>)"

text \<open>
  The unregister loops are \<open>for (i = 0; i < a.length; i++) if (match a[i]) a.splice(i, 1)\<close>:
  after a removal the index still advances, so the element that moved into slot \<open>i\<close> is
  not tested.
\<close>

fun spliceLoop :: "('a \<Rightarrow> bool) \<Rightarrow> 'a list \<Rightarrow> 'a list" where
  "spliceLoop p [] = []"
| "spliceLoop p [x] = (if p x then [] else [x])"
| "spliceLoop p (x # y # ys) = (if p x then y # spliceLoop p ys else x # spliceLoop p (y # ys))"

text \<open>\<open>a.id == groupId\<close> on an entry of \<open>_activeGroups\<close>: a request object has no \<open>id\<close>.\<close>

fun hasId :: "string \<Rightarrow> active \<Rightarrow> bool" where
  "hasId groupId (ActiveGroup g) = (group_id g = groupId)"
| "hasId groupId (ActiveRequest r) = False"

definition registerActiveGroup :: "group \<Rightarrow> execution_context \<Rightarrow> execution_context" where
  "registerActiveGroup g this = this\<lparr>activeGroups := activeGroups this @ [ActiveGroup g]\<rparr>"

definition unregisterActiveGroup :: "group \<Rightarrow> execution_context \<Rightarrow> execution_context" where
  "unregisterActiveGroup g this =
     this\<lparr>activeGroups := spliceLoop (hasId (group_id g)) (activeGroups this)\<rparr>"

text \<open>The lookup loops do not stop at a match: the last one wins.\<close>

definition getActiveGroup :: "execution_context \<Rightarrow> string \<Rightarrow> active option" where
  "getActiveGroup this groupId =
     foldl (\<lambda>found a. if hasId groupId a then Some a else found) None (activeGroups this)"

definition getActiveGroups :: "execution_context \<Rightarrow> active list" where
  "getActiveGroups this = activeGroups this"

definition registerActiveRequest :: "request \<Rightarrow> execution_context \<Rightarrow> execution_context" where
  "registerActiveRequest requestConfig this =
     this\<lparr>activeGroups := activeGroups this @ [ActiveRequest requestConfig]\<rparr>"

definition unregisterActiveRequests :: "request \<Rightarrow> execution_context \<Rightarrow> execution_context" where
  "unregisterActiveRequests requestConfig this =
     this\<lparr>activeRequests :=
       spliceLoop (\<lambda>r. name r = name requestConfig) (activeRequests this)\<rparr>"

text \<open>
  \<open>getActiveRequest\<close> iterates with \<open>for (var req in this._activeRequests)\<close>: \<open>req\<close> is
  an index key of the array, not an element. A key is a string primitive and has no
  property \<open>name\<close>; the function would return the key whose \<open>name\<close> equals the argument.
\<close>

definition keyName :: "nat \<Rightarrow> string option" where
  "keyName req = None"

definition getActiveRequest :: "execution_context \<Rightarrow> string \<Rightarrow> nat option" where
  "getActiveRequest this requestName =
     foldl (\<lambda>found req. if keyName req = Some requestName then Some req else found) None
       [0 ..< length (activeRequests this)]"

definition getActiveRequests :: "execution_context \<Rightarrow> request list" where
  "getActiveRequests this = activeRequests this"

text \<open>
  The readers start from \<open>null\<close> and return the stored value when
  \<open>this._requests[groupId]\<close> and \<open>this._requests[groupId][requestName]\<close> are both
  different from \<open>undefined\<close>. Both reads go through the prototype chain.
\<close>

definition readData :: "heap \<Rightarrow> nat \<Rightarrow> string \<Rightarrow> string \<Rightarrow> error + js" where
  "readData h store groupId requestName =
     andThen (Get h store groupId) (\<lambda>byName.
       if byName = JUndefined then Inr JNull
       else andThen (getValue h byName requestName) (\<lambda>data.
         if data = JUndefined then Inr JNull else Inr data))"

definition requestData :: "execution_context \<Rightarrow> string \<Rightarrow> string \<Rightarrow> error + js" where
  "requestData this groupId requestName =
     readData (heap this) (requests' this) groupId requestName"

definition responseData :: "execution_context \<Rightarrow> string \<Rightarrow> string \<Rightarrow> error + js" where
  "responseData this groupId requestName =
     readData (heap this) (responses' this) groupId requestName"

text \<open>
  The writers: \<open>if (store[groupId] === undefined) store[groupId] = {}\<close>, then
  \<open>store[groupId][requestName] = data\<close>. Each step is the language's read or
  assignment, so a group id that the store inherits sends the write to the inherited
  object.
\<close>

definition writeData :: "heap \<Rightarrow> nat \<Rightarrow> string \<Rightarrow> string \<Rightarrow> js \<Rightarrow> error + heap" where
  "writeData h store groupId requestName d =
     andThen (Get h store groupId) (\<lambda>byName.
       andThen (if byName = JUndefined
                then (let (a, h1) = newObject [] h in Put h1 store groupId (JObject a))
                else Inr h) (\<lambda>h1.
         andThen (Get h1 store groupId) (\<lambda>byName1.
           putValue h1 byName1 requestName d)))"

definition setRequestData ::
  "string \<Rightarrow> string \<Rightarrow> js \<Rightarrow> execution_context \<Rightarrow> error + execution_context" where
  "setRequestData groupId requestName d this =
     andThen (writeData (heap this) (requests' this) groupId requestName d)
       (\<lambda>h. Inr (this\<lparr>heap := h\<rparr>))"

definition setResponseData ::
  "string \<Rightarrow> string \<Rightarrow> js \<Rightarrow> execution_context \<Rightarrow> error + execution_context" where
  "setResponseData groupId requestName d this =
     andThen (writeData (heap this) (responses' this) groupId requestName d)
       (\<lambda>h. Inr (this\<lparr>heap := h\<rparr>))"

section \<open>The execution director (src/execution-director.js)\<close>

text \<open>
  The director keeps the tree, the context, the two counters, the abort flag and the
  completion callback (\<open>null\<close> or a function, kept as an opaque identifier). Each handler
  is a function from the director to the director it leaves and the list of what it
  did, in order: events emitted to the subscribers, group players created and started,
  and the call of the completion callback. A handler that writes to the context can
  raise where the write does; then it has no result. Logger calls and the timestamps
  written onto the group object are left out; \<open>Date.now()\<close> is the argument \<open>now\<close>.
\<close>

record director =
  rcoil :: rcoil
  executionContext :: execution_context
  debug :: bool
  totalGroups :: nat
  tmpGroupsCounter :: nat
  aborted :: bool
  endCallback :: "nat option"

datatype event =
    Abort
  | GroupStart group
  | GroupEnd group
  | RequestStart string request
  | RequestEnd string request

datatype effect = Emit event | StartPlayer group | Callback nat

text \<open>\<open>new ExecutionDirector(rcoil, {debug: dbg})\<close> in a runtime whose heap is \<open>h\<close>.\<close>

definition ExecutionDirector :: "rcoil \<Rightarrow> bool \<Rightarrow> heap \<Rightarrow> director" where
  "ExecutionDirector coil dbg h =
     \<lparr>rcoil = coil, executionContext = ExecutionContext h, debug = dbg, totalGroups = 0,
      tmpGroupsCounter = 0, aborted = False, endCallback = None\<rparr>"

definition requestGroupStarted :: "group \<Rightarrow> director \<Rightarrow> director \<times> effect list" where
  "requestGroupStarted requestGroup this =
     (this\<lparr>executionContext := registerActiveGroup requestGroup (executionContext this)\<rparr>,
      [Emit (GroupStart requestGroup)])"

definition isAborted :: "director \<Rightarrow> bool \<times> effect list" where
  "isAborted this =
     (if aborted this
      then (True, if length (getActiveRequests (executionContext this)) = 0
                  then [Emit Abort] else [])
      else (False, []))"

definition requestGroupDone :: "group \<Rightarrow> director \<Rightarrow> director \<times> effect list" where
  "requestGroupDone requestGroup this =
     (let this1 = this\<lparr>executionContext :=
                          unregisterActiveGroup requestGroup (executionContext this),
                        tmpGroupsCounter := tmpGroupsCounter this + 1\<rparr>;
          (ab, es) = isAborted this1
      in if ab then (this1, es)
         else (this1,
               es @ [Emit (GroupEnd requestGroup)]
                  @ map StartPlayer (children requestGroup)
                  @ (if length (children requestGroup) = 0
                        \<and> tmpGroupsCounter this1 = totalGroups this1
                     then (case endCallback this1 of None \<Rightarrow> [] | Some cb \<Rightarrow> [Callback cb])
                     else [])))"

text \<open>What the players hand to the request handlers: the outgoing request object, the
  body the input callback produced (\<open>null\<close> or a string), the transport's answer and
  the output body.\<close>

record client_request =
  cr_headers :: "(string \<times> string) list"
  cr_url :: string
  cr_method :: string

definition bodyValue :: "string option \<Rightarrow> js" where
  "bodyValue b = (case b of None \<Rightarrow> JNull | Some s \<Rightarrow> JString s)"

text \<open>Several assignments \<open>o.k = v\<close> on the object at \<open>a\<close>, in order.\<close>

fun putAll :: "heap \<Rightarrow> nat \<Rightarrow> (string \<times> js) list \<Rightarrow> error + heap" where
  "putAll h a [] = Inr h"
| "putAll h a ((k, v) # kvs) = andThen (Put h a k v) (\<lambda>h1. putAll h1 a kvs)"

definition requestStarted ::
  "group \<Rightarrow> request \<Rightarrow> client_request \<Rightarrow> string option \<Rightarrow> nat \<Rightarrow> director
   \<Rightarrow> error + director \<times> effect list" where
  "requestStarted requestGroup requestConfig requestObject input now this =
     (let ctx1 = registerActiveRequest requestConfig (executionContext this);
          (request, h1) = newObject [(''config'', JHost (RequestObject requestConfig)),
                                     (''body'', bodyValue input),
                                     (''startTime'', JNumber now)] (heap ctx1)
      in andThen (if type' requestConfig = HTTP
                  then putAll h1 request
                         [(''headers'', JHost (HeadersObject (cr_headers requestObject))),
                          (''url'', JString (cr_url requestObject)),
                          (''method'', JString (cr_method requestObject))]
                  else Inr h1) (\<lambda>h2.
         andThen (setRequestData (group_id requestGroup) (name requestConfig) (JObject request)
                    (ctx1\<lparr>heap := h2\<rparr>)) (\<lambda>ctx2.
           Inr (this\<lparr>executionContext := ctx2\<rparr>,
                [Emit (RequestStart (group_id requestGroup) requestConfig)]))))"

text \<open>
  For an HTTP request \<open>_requestDone\<close> copies \<open>headers\<close>, \<open>httpVersion\<close>, \<open>method\<close>,
  \<open>statusCode\<close> and \<open>statusMessage\<close> from \<open>resp\<close>; for a Lambda request it stores \<open>resp\<close>
  itself as \<open>err\<close>. Reading the five properties from \<open>null\<close> raises; reading them from a
  string goes to the string's wrapper. With the debug option the handler reads the
  start time of the request back from the context after it has emitted the event; a
  raise there leaves the handler without a result as well.
\<close>

definition httpFields :: "resp \<Rightarrow> error + (string \<times> js) list" where
  "httpFields rsp =
     (case rsp of
        HttpMessage hs v m sc sm \<Rightarrow>
          Inr [(''headers'', JHost (HeadersObject hs)),
               (''httpVersion'', JString v),
               (''method'', bodyValue m),
               (''statusCode'', JNumber sc),
               (''statusMessage'', JString sm)]
      | LambdaError None \<Rightarrow> Inl TypeError
      | LambdaError (Some s) \<Rightarrow> Inl Unmodelled)"

definition respValue :: "resp \<Rightarrow> js" where
  "respValue rsp =
     (case rsp of
        LambdaError e \<Rightarrow> bodyValue e
      | HttpMessage hs v m sc sm \<Rightarrow> JHost (MessageObject rsp))"

definition requestDone ::
  "group \<Rightarrow> request \<Rightarrow> resp \<Rightarrow> string option \<Rightarrow> nat \<Rightarrow> director
   \<Rightarrow> error + director \<times> effect list" where
  "requestDone requestGroup requestConfig rsp output now this =
     (let ctx1 = unregisterActiveRequests requestConfig (executionContext this);
          (response, h1) = newObject [(''body'', bodyValue output),
                                      (''endTime'', JNumber now),
                                      (''isCanceled'', JBool False)] (heap ctx1)
      in andThen (case type' requestConfig of
                    HTTP \<Rightarrow> andThen (httpFields rsp) (putAll h1 response)
                  | LAMBDA \<Rightarrow> Put h1 response ''err'' (respValue rsp)
                  | NoType \<Rightarrow> Inr h1) (\<lambda>h2.
         andThen (setResponseData (group_id requestGroup) (name requestConfig)
                    (JObject response) (ctx1\<lparr>heap := h2\<rparr>)) (\<lambda>ctx2.
           andThen (if debug this
                    then andThen (requestData ctx2 (group_id requestGroup) (name requestConfig))
                           (\<lambda>d. getValue (heap ctx2) d ''startTime'')
                    else Inr JUndefined) (\<lambda>logged.
             Inr (this\<lparr>executionContext := ctx2\<rparr>,
                  [Emit (RequestEnd (group_id requestGroup) requestConfig)])))))"

definition requestCanceled ::
  "group \<Rightarrow> request \<Rightarrow> nat \<Rightarrow> director \<Rightarrow> error + director \<times> effect list" where
  "requestCanceled requestGroup requestConfig now this =
     (let ctx1 = unregisterActiveRequests requestConfig (executionContext this);
          (response, h1) = newObject [(''endTime'', JNumber now),
                                      (''isCanceled'', JBool True)] (heap ctx1)
      in andThen (setResponseData (group_id requestGroup) (name requestConfig)
                    (JObject response) (ctx1\<lparr>heap := h1\<rparr>)) (\<lambda>ctx2.
           Inr (this\<lparr>executionContext := ctx2\<rparr>,
                [Emit (RequestEnd (group_id requestGroup) requestConfig)])))"

definition start :: "nat option \<Rightarrow> director \<Rightarrow> director \<times> effect list" where
  "start callback this =
     (this\<lparr>totalGroups := requestGroupsCount (rcoil this),
            tmpGroupsCounter := 0,
            endCallback := callback\<rparr>,
      map StartPlayer (calls (rcoil this)))"

definition abort :: "director \<Rightarrow> director" where
  "abort this = this\<lparr>aborted := True\<rparr>"

section \<open>Runs: the director with its players\<close>

text \<open>
  Modelled from the spec: the group and request players (\<open>src/players.js\<close>, the
  \<open>RequestGroupPlayer\<close> the director creates) are not among the sources. Their protocol
  is taken from the specification's Group Runner and Request Runner sections. A started
  group player fires its start event and launches one runner per owned request; a
  runner invokes the input callback and then either is canceled (no call is dispatched,
  the cancel event fires) or dispatches the call to the transport (the request-start
  event fires) and, when the transport completes, fires the request-end event; when
  every owned request has settled the group player fires its end event, once. The
  director's handlers above answer these events; players it starts join the run.

  JavaScript runs one handler at a time, so a run is a sequence of actions. Which action
  comes next (which runner moves, what the callback and the transport answer, when the
  user calls \<open>abort()\<close>) is the environment's choice: the schedule. A handler runs to
  its end before the next action: event subscribers are taken not to call the director
  from inside a handler. A handler that raises leaves an uncaught exception in the
  player that fired the event: the run has no next state (\<open>None\<close>), as for an action
  that is not possible in the state.
\<close>

record player =
  p_group :: group
  p_started :: bool
  p_waiting :: "request list"
  p_inflight :: "request list"

record run_state =
  the_director :: director
  players :: "player list"
  transport :: "(string \<times> request) list"
  trace :: "effect list"
  clock :: nat

datatype action =
    PlayerStart nat
  | InputCancel nat nat
  | InputSend nat nat "string option" client_request
  | TransportDone nat nat resp "string option"
  | PlayerEnd nat
  | CallAbort

definition newPlayer :: "group \<Rightarrow> player" where
  "newPlayer g = \<lparr>p_group = g, p_started = False, p_waiting = [], p_inflight = []\<rparr>"

fun startedPlayers :: "effect list \<Rightarrow> player list" where
  "startedPlayers [] = []"
| "startedPlayers (StartPlayer g # es) = newPlayer g # startedPlayers es"
| "startedPlayers (Emit e # es) = startedPlayers es"
| "startedPlayers (Callback cb # es) = startedPlayers es"

definition removeAt :: "nat \<Rightarrow> 'a list \<Rightarrow> 'a list" where
  "removeAt i xs = take i xs @ drop (Suc i) xs"

text \<open>\<open>director.start(callback)\<close> in a state of the run: the players it starts join
  whatever players are still active.\<close>

definition start_run :: "nat option \<Rightarrow> run_state \<Rightarrow> run_state" where
  "start_run callback s =
     (let (d, es) = start callback (the_director s)
      in s\<lparr>the_director := d, players := players s @ startedPlayers es,
           trace := trace s @ es\<rparr>)"

text \<open>A newly constructed director for the tree, in a runtime whose heap is \<open>h\<close>; and
  \<open>start(callback)\<close> on it.\<close>

definition new_run :: "rcoil \<Rightarrow> heap \<Rightarrow> run_state" where
  "new_run coil h =
     \<lparr>the_director = ExecutionDirector coil False h, players = [], transport = [],
      trace = [], clock = 0\<rparr>"

definition begin_run :: "rcoil \<Rightarrow> heap \<Rightarrow> nat option \<Rightarrow> run_state" where
  "begin_run coil h callback = start_run callback (new_run coil h)"

text \<open>The effects a run added to the trace since the state \<open>s0\<close>.\<close>

definition since :: "run_state \<Rightarrow> run_state \<Rightarrow> effect list" where
  "since s0 s = drop (length (trace s0)) (trace s)"

definition playerStart :: "nat \<Rightarrow> run_state \<Rightarrow> run_state option" where
  "playerStart i s =
     (if i < length (players s) \<and> \<not> p_started (players s ! i)
      then (let p = players s ! i;
                (d, es) = requestGroupStarted (p_group p) (the_director s)
            in Some (s\<lparr>the_director := d,
                       players := (players s)[i := p\<lparr>p_started := True,
                                                     p_waiting := requests (p_group p)\<rparr>],
                       trace := trace s @ es, clock := Suc (clock s)\<rparr>))
      else None)"

definition inputCancel :: "nat \<Rightarrow> nat \<Rightarrow> run_state \<Rightarrow> run_state option" where
  "inputCancel i j s =
     (if i < length (players s) \<and> j < length (p_waiting (players s ! i))
         \<and> inputFunc (p_waiting (players s ! i) ! j) \<noteq> None
      then (let p = players s ! i; r = p_waiting p ! j
            in case requestCanceled (p_group p) r (clock s) (the_director s) of
                 Inl e \<Rightarrow> None
               | Inr (d, es) \<Rightarrow>
                   Some (s\<lparr>the_director := d,
                           players := (players s)[i := p\<lparr>p_waiting := removeAt j (p_waiting p)\<rparr>],
                           trace := trace s @ es, clock := Suc (clock s)\<rparr>))
      else None)"

definition inputSend ::
  "nat \<Rightarrow> nat \<Rightarrow> string option \<Rightarrow> client_request \<Rightarrow> run_state \<Rightarrow> run_state option" where
  "inputSend i j input requestObject s =
     (if i < length (players s) \<and> j < length (p_waiting (players s ! i))
      then (let p = players s ! i; r = p_waiting p ! j
            in case requestStarted (p_group p) r requestObject input (clock s)
                      (the_director s) of
                 Inl e \<Rightarrow> None
               | Inr (d, es) \<Rightarrow>
                   Some (s\<lparr>the_director := d,
                           players := (players s)[i := p\<lparr>p_waiting := removeAt j (p_waiting p),
                                                         p_inflight := p_inflight p @ [r]\<rparr>],
                           transport := transport s @ [(group_id (p_group p), r)],
                           trace := trace s @ es, clock := Suc (clock s)\<rparr>))
      else None)"

definition transportDone ::
  "nat \<Rightarrow> nat \<Rightarrow> resp \<Rightarrow> string option \<Rightarrow> run_state \<Rightarrow> run_state option" where
  "transportDone i j rsp output s =
     (if i < length (players s) \<and> j < length (p_inflight (players s ! i))
      then (let p = players s ! i; r = p_inflight p ! j
            in case requestDone (p_group p) r rsp output (clock s) (the_director s) of
                 Inl e \<Rightarrow> None
               | Inr (d, es) \<Rightarrow>
                   Some (s\<lparr>the_director := d,
                           players := (players s)[i := p\<lparr>p_inflight := removeAt j (p_inflight p)\<rparr>],
                           trace := trace s @ es, clock := Suc (clock s)\<rparr>))
      else None)"

definition playerEnd :: "nat \<Rightarrow> run_state \<Rightarrow> run_state option" where
  "playerEnd i s =
     (if i < length (players s) \<and> p_started (players s ! i)
         \<and> p_waiting (players s ! i) = [] \<and> p_inflight (players s ! i) = []
      then (let p = players s ! i;
                (d, es) = requestGroupDone (p_group p) (the_director s)
            in Some (s\<lparr>the_director := d,
                       players := removeAt i (players s) @ startedPlayers es,
                       trace := trace s @ es, clock := Suc (clock s)\<rparr>))
      else None)"

definition callAbort :: "run_state \<Rightarrow> run_state option" where
  "callAbort s = Some (s\<lparr>the_director := abort (the_director s)\<rparr>)"

fun step :: "action \<Rightarrow> run_state \<Rightarrow> run_state option" where
  "step (PlayerStart i) s = playerStart i s"
| "step (InputCancel i j) s = inputCancel i j s"
| "step (InputSend i j input requestObject) s = inputSend i j input requestObject s"
| "step (TransportDone i j rsp output) s = transportDone i j rsp output s"
| "step (PlayerEnd i) s = playerEnd i s"
| "step CallAbort s = callAbort s"

fun run :: "action list \<Rightarrow> run_state \<Rightarrow> run_state option" where
  "run [] s = Some s"
| "run (a # as) s = (case step a s of None \<Rightarrow> None | Some s' \<Rightarrow> run as s')"


definition inFlight :: "run_state \<Rightarrow> request list" where
  "inFlight s = concat (map p_inflight (players s))"



section \<open>Trees, answers and a runtime used as examples\<close>

text \<open>
  Trees in the style of the test suite (\<open>test/rcoil-server.js\<close>): a group with a child
  group, one GET request each (its \<open>sequentialCallCoil\<close>); two root groups, one GET
  request each; a single group whose request carries an input callback; and the same
  with the group called \<open>constructor\<close> and the request called \<open>name\<close>.
\<close>

definition getRequest :: "string \<Rightarrow> string \<Rightarrow> nat option \<Rightarrow> request" where
  "getRequest n p cb =
     \<lparr>type' = HTTP, name = n,
      settings = HttpSettings \<lparr>host = Some (Some ''localhost''), path = Some (Some p),
                   port = Some (Some ''3000''), protocol = Some (Some ''http:''),
                   method' = Some (Some ''GET'')\<rparr>,
      inputFunc = cb\<rparr>"


definition parallelCalls :: "builder_call list" where
  "parallelCalls =
     [StartGroup ''groupA'', AddRequest (RequestValue (getRequest ''requestA'' ''/users'' None)),
      FromTheBeginning,
      StartGroup ''groupB'', AddRequest (RequestValue (getRequest ''requestB'' ''/users'' None))]"

definition cancelCalls :: "builder_call list" where
  "cancelCalls =
     [StartGroup ''test'', AddRequest (RequestValue (getRequest ''test'' ''/users'' (Some 1)))]"

definition inheritedCalls :: "builder_call list" where
  "inheritedCalls =
     [StartGroup ''constructor'',
      AddRequest (RequestValue (getRequest ''name'' ''/users'' (Some 1)))]"


definition sent :: client_request where
  "sent = \<lparr>cr_headers = [], cr_url = ''http://localhost:3000/users'', cr_method = ''GET''\<rparr>"

definition ok :: resp where
  "ok = HttpMessage [] ''1.1'' None 200 ''OK''"

text \<open>
  A heap with the built-in objects that an object literal reaches by a property name:
  \<open>Object.prototype\<close> at address 0 with its members, the \<open>Object\<close> function at 1,
  \<open>Function.prototype\<close> at 2, and the ten method functions of \<open>Object.prototype\<close> from
  3 on. A function has the properties \<open>name\<close> and \<open>length\<close>, neither writable. The
  static methods of \<open>Object\<close> and the methods of \<open>Function.prototype\<close> are left out: no
  example reads them.
\<close>

definition functionObject :: "string \<Rightarrow> nat \<Rightarrow> (string \<times> property) list \<Rightarrow> object" where
  "functionObject nm len others =
     \<lparr>properties = map_of ([(''name'', Data (JString nm) False),
                             (''length'', Data (JNumber len) False)] @ others),
      prototype = Some 2, extensible = True, immutablePrototype = False\<rparr>"

definition builtins :: heap where
  "builtins =
     [\<lparr>properties = map_of
         [(''constructor'', Data (JObject 1) True),
          (''__proto__'', ProtoAccessor),
          (''hasOwnProperty'', Data (JObject 3) True),
          (''isPrototypeOf'', Data (JObject 4) True),
          (''propertyIsEnumerable'', Data (JObject 5) True),
          (''toLocaleString'', Data (JObject 6) True),
          (''toString'', Data (JObject 7) True),
          (''valueOf'', Data (JObject 8) True),
          (''__defineGetter__'', Data (JObject 9) True),
          (''__defineSetter__'', Data (JObject 10) True),
          (''__lookupGetter__'', Data (JObject 11) True),
          (''__lookupSetter__'', Data (JObject 12) True)],
       prototype = None, extensible = True, immutablePrototype = True\<rparr>,
      functionObject ''Object'' 1 [(''prototype'', Data (JObject 0) False)],
      \<lparr>properties = map_of
         [(''name'', Data (JString []) False),
          (''length'', Data (JNumber 0) False),
          (''caller'', ThrowTypeError),
          (''arguments'', ThrowTypeError)],
       prototype = Some 0, extensible = True, immutablePrototype = False\<rparr>,
      functionObject ''hasOwnProperty'' 1 [],
      functionObject ''isPrototypeOf'' 1 [],
      functionObject ''propertyIsEnumerable'' 1 [],
      functionObject ''toLocaleString'' 0 [],
      functionObject ''toString'' 0 [],
      functionObject ''valueOf'' 0 [],
      functionObject ''__defineGetter__'' 2 [],
      functionObject ''__defineSetter__'' 2 [],
      functionObject ''__lookupGetter__'' 1 [],
      functionObject ''__lookupSetter__'' 1 []]"

section \<open>Properties of the tree builder\<close>

lemma findRequestGroup_id: "findRequestGroup gs i = Some g \<Longrightarrow> group_id g = i"
  by (induction gs i rule: findRequestGroup.induct) (auto split: if_splits option.splits)

lemma findRequestGroup_None_iff: "findRequestGroup gs i = None \<longleftrightarrow> i \<notin> groupIds gs"
  by (induction gs i rule: findRequestGroup.induct) (auto split: option.splits)

lemma findRequestGroup_update:
  "findRequestGroup gs i = Some g \<Longrightarrow> group_id (f g) = i \<Longrightarrow>
   findRequestGroup (updateRequestGroup f gs i) i = Some (f g)"
proof (induction gs i arbitrary: g rule: findRequestGroup.induct)
  case (1 groupId)
  then show ?case by simp
next
  case (2 i rs cs gs groupId)
  then show ?case
    by (cases "f (Group i rs cs)") (auto split: option.splits if_splits)
qed

lemma groupIds_append: "groupIds (xs @ ys) = groupIds xs \<union> groupIds ys"
   by (induction xs rule: groupIds.induct) auto

lemma countGroups_append: "countGroups (xs @ ys) = countGroups xs + countGroups ys"
   by (induction xs rule: countGroups.induct) auto

lemma groupIds_pushChild:
  "findRequestGroup gs c = Some g \<Longrightarrow>
   groupIds (updateRequestGroup (pushChild (Group i [] [])) gs c) = insert i (groupIds gs)"
  by (induction gs c rule: findRequestGroup.induct)
     (auto simp: pushChild_def groupIds_append split: option.splits if_splits)

lemma countGroups_pushChild:
  "findRequestGroup gs c = Some g \<Longrightarrow>
   countGroups (updateRequestGroup (pushChild (Group i [] [])) gs c) = Suc (countGroups gs)"
  by (induction gs c rule: findRequestGroup.induct)
     (auto simp: pushChild_def countGroups_append split: option.splits if_splits)

lemma countGroups_pushRequest:
  "countGroups (updateRequestGroup (pushRequest r) gs c) = countGroups gs"
  by (induction gs c rule: findRequestGroup.induct)
     (auto simp: pushRequest_def split: option.splits if_splits)

lemma groupIds_pushRequest:
  "groupIds (updateRequestGroup (pushRequest r) gs c) = groupIds gs"
  by (induction gs c rule: findRequestGroup.induct)
     (auto simp: pushRequest_def split: option.splits if_splits)

lemma findRequestGroup_Some_in: "findRequestGroup gs i = Some g \<Longrightarrow> i \<in> groupIds gs"
  using findRequestGroup_None_iff[of gs i] by auto

lemma findRequestGroup_append_new:
  "i \<notin> groupIds gs \<Longrightarrow> findRequestGroup (gs @ [Group i [] []]) i = Some (Group i [] [])"
  by (induction gs i rule: findRequestGroup.induct)
     (auto split: option.splits dest: findRequestGroup_Some_in)

lemma findRequestGroup_pushChild_new:
  "findRequestGroup gs c = Some g \<Longrightarrow> i \<notin> groupIds gs \<Longrightarrow>
   findRequestGroup (updateRequestGroup (pushChild (Group i [] [])) gs c) i = Some (Group i [] [])"
proof (induction gs c arbitrary: g rule: findRequestGroup.induct)
  case (1 groupId)
  then show ?case by simp
next
  case (2 j rs cs gs c)
  from "2.prems"(2) have ji: "j \<noteq> i" and ics: "i \<notin> groupIds cs" and igs: "i \<notin> groupIds gs"
    by auto
  show ?case
  proof (cases "j = c")
    case True
    then show ?thesis
      using ji ics by (simp add: pushChild_def findRequestGroup_append_new)
  next
    case False
    show ?thesis
    proof (cases "findRequestGroup cs c")
      case None
      with False "2.prems"(1) have "findRequestGroup gs c = Some g" by simp
      with "2.IH"(2)[OF False None this igs] False None ji ics show ?thesis
        by (simp add: findRequestGroup_None_iff[symmetric])
    next
      case (Some x)
      with "2.IH"(1)[OF False Some ics] False ji show ?thesis by simp
    qed
  qed
qed

text \<open>
  Claim C3, as the code has it. For every builder state and every id: when the id
  already exists anywhere in the tree, \<open>startGroup(id)\<close> raises the configuration error
  and leaves the builder unchanged. When the id is new and the cursor is empty, the new
  empty group is appended as a new root; when the id is new and the cursor names a group
  of the tree, the new empty group is appended to the children of that group and is
  itself found under its id; in both cases the cursor advances to the id and the counter
  is incremented. When the id is new but the cursor names no group of the tree (after
  \<open>afterGroup\<close> with an unknown id), the call raises a TypeError and leaves the builder
  unchanged.
\<close>

theorem startGroup_at_resolved_cursor:
  "(groupId \<in> groupIds (calls this) \<longrightarrow>
      startGroup groupId this =
        (Some (Error (''Request Group '' @ groupId @ '' already exists in your Symphony'')), this))
   \<and> (groupId \<notin> groupIds (calls this) \<and> tmpPositionId this = [] \<longrightarrow>
      startGroup groupId this =
        (None, this\<lparr>calls := calls this @ [Group groupId [] []],
                    tmpPositionId := groupId,
                    totalRequestGroups := Suc (totalRequestGroups this)\<rparr>))
   \<and> (groupId \<notin> groupIds (calls this) \<and> tmpPositionId this \<noteq> [] \<longrightarrow>
      (case findRequestGroup (calls this) (tmpPositionId this) of
         None \<Rightarrow> startGroup groupId this = (Some TypeError, this)
       | Some g \<Rightarrow>
           (\<exists>this'. startGroup groupId this = (None, this')
              \<and> findRequestGroup (calls this') (tmpPositionId this) =
                  Some (Group (group_id g) (requests g) (children g @ [Group groupId [] []]))
              \<and> findRequestGroup (calls this') groupId = Some (Group groupId [] [])
              \<and> groupIds (calls this') = insert groupId (groupIds (calls this))
              \<and> countGroups (calls this') = Suc (countGroups (calls this))
              \<and> tmpPositionId this' = groupId
              \<and> totalRequestGroups this' = Suc (totalRequestGroups this))))"
proof (intro conjI impI)
  assume "groupId \<in> groupIds (calls this)"
  then have "findRequestGroup (calls this) groupId \<noteq> None"
    by (simp add: findRequestGroup_None_iff)
  then show "startGroup groupId this =
        (Some (Error (''Request Group '' @ groupId @ '' already exists in your Symphony'')), this)"
    by (simp add: startGroup_def)
next
  assume "groupId \<notin> groupIds (calls this) \<and> tmpPositionId this = []"
  then show "startGroup groupId this =
        (None, this\<lparr>calls := calls this @ [Group groupId [] []],
                    tmpPositionId := groupId,
                    totalRequestGroups := Suc (totalRequestGroups this)\<rparr>)"
    by (simp add: startGroup_def findRequestGroup_None_iff createEmptyRequestGroup_def)
next
  assume a: "groupId \<notin> groupIds (calls this) \<and> tmpPositionId this \<noteq> []"
  then have fresh: "findRequestGroup (calls this) groupId = None"
    by (simp add: findRequestGroup_None_iff)
  show "case findRequestGroup (calls this) (tmpPositionId this) of
         None \<Rightarrow> startGroup groupId this = (Some TypeError, this)
       | Some g \<Rightarrow>
           (\<exists>this'. startGroup groupId this = (None, this')
              \<and> findRequestGroup (calls this') (tmpPositionId this) =
                  Some (Group (group_id g) (requests g) (children g @ [Group groupId [] []]))
              \<and> findRequestGroup (calls this') groupId = Some (Group groupId [] [])
              \<and> groupIds (calls this') = insert groupId (groupIds (calls this))
              \<and> countGroups (calls this') = Suc (countGroups (calls this))
              \<and> tmpPositionId this' = groupId
              \<and> totalRequestGroups this' = Suc (totalRequestGroups this))"
  proof (cases "findRequestGroup (calls this) (tmpPositionId this)")
    case None
    with a fresh show ?thesis by (simp add: startGroup_def)
  next
    case (Some g)
    have gid: "group_id g = tmpPositionId this"
      using Some by (rule findRequestGroup_id)
    have upd: "findRequestGroup
                 (updateRequestGroup (pushChild (Group groupId [] [])) (calls this) (tmpPositionId this))
                 (tmpPositionId this) = Some (pushChild (Group groupId [] []) g)"
      using Some gid by (intro findRequestGroup_update) (simp_all add: pushChild_def)
    show ?thesis
      using a fresh Some upd
        findRequestGroup_pushChild_new[OF Some, of groupId]
        groupIds_pushChild[OF Some, of groupId]
        countGroups_pushChild[OF Some, of groupId]
      by (simp add: startGroup_def createEmptyRequestGroup_def pushChild_def)
  qed
qed

theorem startGroup_at_resolved_cursor_witness:
  "''a'' \<in> groupIds (calls (build [StartGroup ''a'']))
   \<and> startGroup ''a'' (build [StartGroup ''a''])
       = (Some (Error ''Request Group a already exists in your Symphony''), build [StartGroup ''a''])
   \<and> ''a'' \<notin> groupIds (calls Rcoil) \<and> tmpPositionId Rcoil = []
   \<and> startGroup ''a'' Rcoil
       = (None, \<lparr>calls = [Group ''a'' [] []], tmpPositionId = ''a'', totalRequestGroups = 1\<rparr>)
   \<and> ''b'' \<notin> groupIds (calls (build [StartGroup ''a'']))
   \<and> tmpPositionId (build [StartGroup ''a'']) \<noteq> []
   \<and> startGroup ''b'' (build [StartGroup ''a''])
       = (None, \<lparr>calls = [Group ''a'' [] [Group ''b'' [] []]], tmpPositionId = ''b'',
                 totalRequestGroups = 2\<rparr>)
   \<and> findRequestGroup (calls (build [StartGroup ''a'', AfterGroup ''ghost''])) ''ghost'' = None
   \<and> startGroup ''b'' (build [StartGroup ''a'', AfterGroup ''ghost''])
       = (Some TypeError, build [StartGroup ''a'', AfterGroup ''ghost''])"
  using startGroup_at_resolved_cursor[of "''a''" "build [StartGroup ''a'']"]
        startGroup_at_resolved_cursor[of "''a''" Rcoil]
        startGroup_at_resolved_cursor[of "''b''" "build [StartGroup ''a'']"]
        startGroup_at_resolved_cursor[of "''b''" "build [StartGroup ''a'', AfterGroup ''ghost'']"]
  by (simp add: build_def Rcoil_def startGroup_def afterGroup_def createEmptyRequestGroup_def
        pushChild_def)

text \<open>The claim as stated promises the append for every new id. After
  \<open>startGroup("a").afterGroup("ghost")\<close> the id \<open>b\<close> is new, yet \<open>startGroup("b")\<close> raises
  and adds nothing.\<close>

theorem startGroup_unresolved_cursor_counterexample:
  "''b'' \<notin> groupIds (calls (build [StartGroup ''a'', AfterGroup ''ghost'']))
   \<and> startGroup ''b'' (build [StartGroup ''a'', AfterGroup ''ghost''])
       = (Some TypeError, build [StartGroup ''a'', AfterGroup ''ghost''])
   \<and> calls (build [StartGroup ''a'', AfterGroup ''ghost'']) = [Group ''a'' [] []]
   \<and> tmpPositionId (build [StartGroup ''a'', AfterGroup ''ghost'']) = ''ghost''
   \<and> totalRequestGroups (build [StartGroup ''a'', AfterGroup ''ghost'']) = 1"
  by (simp add: build_def Rcoil_def startGroup_def afterGroup_def createEmptyRequestGroup_def)


text \<open>
  Claim C7, as the code has it. \<open>addRequest\<close> raises the configuration error when the
  cursor is empty, and when the cursor is not empty and the argument is not a Request;
  in both cases the builder is unchanged. Otherwise, when the cursor names a group of
  the tree, the request is appended to the request list of that group and nothing else
  changes; when the cursor names no group, the call raises a TypeError and the builder
  is unchanged.
\<close>

theorem addRequest_at_resolved_cursor:
  "(tmpPositionId this = [] \<longrightarrow>
      addRequest arg this =
        (Some (Error ''Cannot add requests without starting a group first''), this))
   \<and> (tmpPositionId this \<noteq> [] \<longrightarrow>
      addRequest OtherValue this = (Some (Error ''Invalid Request object''), this))
   \<and> (tmpPositionId this \<noteq> [] \<longrightarrow>
      (case findRequestGroup (calls this) (tmpPositionId this) of
         None \<Rightarrow> addRequest (RequestValue r) this = (Some TypeError, this)
       | Some g \<Rightarrow>
           (\<exists>this'. addRequest (RequestValue r) this = (None, this')
              \<and> findRequestGroup (calls this') (tmpPositionId this) =
                  Some (Group (group_id g) (requests g @ [r]) (children g))
              \<and> groupIds (calls this') = groupIds (calls this)
              \<and> countGroups (calls this') = countGroups (calls this)
              \<and> tmpPositionId this' = tmpPositionId this
              \<and> totalRequestGroups this' = totalRequestGroups this)))"
proof (intro conjI impI)
  assume "tmpPositionId this = []"
  then show "addRequest arg this =
        (Some (Error ''Cannot add requests without starting a group first''), this)"
    by (simp add: addRequest_def)
next
  assume "tmpPositionId this \<noteq> []"
  then show "addRequest OtherValue this = (Some (Error ''Invalid Request object''), this)"
    by (simp add: addRequest_def)
next
  assume ne: "tmpPositionId this \<noteq> []"
  show "case findRequestGroup (calls this) (tmpPositionId this) of
         None \<Rightarrow> addRequest (RequestValue r) this = (Some TypeError, this)
       | Some g \<Rightarrow>
           (\<exists>this'. addRequest (RequestValue r) this = (None, this')
              \<and> findRequestGroup (calls this') (tmpPositionId this) =
                  Some (Group (group_id g) (requests g @ [r]) (children g))
              \<and> groupIds (calls this') = groupIds (calls this)
              \<and> countGroups (calls this') = countGroups (calls this)
              \<and> tmpPositionId this' = tmpPositionId this
              \<and> totalRequestGroups this' = totalRequestGroups this)"
  proof (cases "findRequestGroup (calls this) (tmpPositionId this)")
    case None
    with ne show ?thesis by (simp add: addRequest_def)
  next
    case (Some g)
    have gid: "group_id g = tmpPositionId this"
      using Some by (rule findRequestGroup_id)
    have upd: "findRequestGroup
                 (updateRequestGroup (pushRequest r) (calls this) (tmpPositionId this))
                 (tmpPositionId this) = Some (pushRequest r g)"
      using Some gid by (intro findRequestGroup_update) (simp_all add: pushRequest_def)
    show ?thesis
      using ne Some upd
      by (simp add: addRequest_def pushRequest_def groupIds_pushRequest countGroups_pushRequest)
  qed
qed

theorem addRequest_at_resolved_cursor_witness:
  "tmpPositionId Rcoil = []
   \<and> addRequest (RequestValue (Request ''r'')) Rcoil
       = (Some (Error ''Cannot add requests without starting a group first''), Rcoil)
   \<and> tmpPositionId (build [StartGroup ''a'']) \<noteq> []
   \<and> addRequest OtherValue (build [StartGroup ''a''])
       = (Some (Error ''Invalid Request object''), build [StartGroup ''a''])
   \<and> addRequest (RequestValue (Request ''r'')) (build [StartGroup ''a''])
       = (None, \<lparr>calls = [Group ''a'' [Request ''r''] []], tmpPositionId = ''a'',
                 totalRequestGroups = 1\<rparr>)
   \<and> findRequestGroup (calls (build [AfterGroup ''nowhere''])) ''nowhere'' = None
   \<and> addRequest (RequestValue (Request ''r'')) (build [AfterGroup ''nowhere''])
       = (Some TypeError, build [AfterGroup ''nowhere''])"
  using addRequest_at_resolved_cursor[of Rcoil "RequestValue (Request ''r'')" "Request ''r''"]
        addRequest_at_resolved_cursor[of "build [StartGroup ''a'']" OtherValue "Request ''r''"]
        addRequest_at_resolved_cursor[of "build [AfterGroup ''nowhere'']" OtherValue "Request ''r''"]
  by (simp add: build_def Rcoil_def startGroup_def afterGroup_def addRequest_def
        createEmptyRequestGroup_def pushRequest_def)

text \<open>The claim as stated promises the append whenever the cursor is not empty and the
  argument is a Request. After \<open>afterGroup("nowhere")\<close> both hold and the call raises.\<close>

theorem addRequest_unresolved_cursor_counterexample:
  "tmpPositionId (build [AfterGroup ''nowhere'']) \<noteq> []
   \<and> addRequest (RequestValue (Request ''r'')) (build [AfterGroup ''nowhere''])
       = (Some TypeError, build [AfterGroup ''nowhere''])
   \<and> calls (build [AfterGroup ''nowhere'']) = []"
  by (simp add: build_def Rcoil_def afterGroup_def addRequest_def)

text \<open>
  Claim C9, as the code has it. \<open>afterGroup(id)\<close> sets the cursor to the id and changes
  nothing else, whether or not a group with that id exists. With the cursor at an id
  that is not in the tree, a following \<open>addRequest\<close> does not succeed silently: it
  raises (a TypeError for a Request argument and a non-empty id) and leaves the builder
  unchanged.
\<close>

theorem afterGroup_then_addRequest:
  "tmpPositionId (afterGroup groupId this) = groupId
   \<and> calls (afterGroup groupId this) = calls this
   \<and> totalRequestGroups (afterGroup groupId this) = totalRequestGroups this
   \<and> (groupId \<notin> groupIds (calls this) \<longrightarrow>
        (\<exists>e. addRequest arg (afterGroup groupId this) = (Some e, afterGroup groupId this)))
   \<and> (groupId \<notin> groupIds (calls this) \<and> groupId \<noteq> [] \<longrightarrow>
        addRequest (RequestValue r) (afterGroup groupId this)
          = (Some TypeError, afterGroup groupId this))"
  by (cases arg)
     (auto simp: afterGroup_def addRequest_def findRequestGroup_None_iff[symmetric])

theorem afterGroup_then_addRequest_witness:
  "tmpPositionId (afterGroup ''ghost'' (build [StartGroup ''a''])) = ''ghost''
   \<and> ''ghost'' \<notin> groupIds (calls (build [StartGroup ''a'']))
   \<and> addRequest (RequestValue (Request ''r'')) (afterGroup ''ghost'' (build [StartGroup ''a'']))
       = (Some TypeError, afterGroup ''ghost'' (build [StartGroup ''a'']))"
  using afterGroup_then_addRequest[of "''ghost''" "build [StartGroup ''a'']"
          "RequestValue (Request ''r'')" "Request ''r''"]
  by (simp add: build_def Rcoil_def startGroup_def createEmptyRequestGroup_def)

text \<open>The claim as stated has the following \<open>addRequest\<close> succeed silently; it
  raises and the tree is as before.\<close>

theorem afterGroup_then_addRequest_counterexample:
  "fst (addRequest (RequestValue (Request ''r''))
          (afterGroup ''ghost'' (build [StartGroup ''a'']))) = Some TypeError
   \<and> calls (snd (addRequest (RequestValue (Request ''r''))
          (afterGroup ''ghost'' (build [StartGroup ''a''])))) = [Group ''a'' [] []]"
  by (simp add: build_def Rcoil_def startGroup_def afterGroup_def addRequest_def
        createEmptyRequestGroup_def)


section \<open>Properties of the execution context\<close>

lemma getActiveRequest_None: "getActiveRequest this requestName = None"
proof -
  have "foldl (\<lambda>found req. if keyName req = Some requestName then Some req else found) None ks
          = None" for ks
    by (induction ks) (simp_all add: keyName_def)
  then show ?thesis by (simp add: getActiveRequest_def)
qed

lemma ExecutionContext_simps:
  "heap (ExecutionContext h) = snd (newObject [] (snd (newObject [] h)))"
  "activeGroups (ExecutionContext h) = []"
  "activeRequests (ExecutionContext h) = []"
  "requests' (ExecutionContext h) = length h"
  "responses' (ExecutionContext h) = Suc (length h)"
  by (simp_all add: ExecutionContext_def newObject_def Let_def)

lemmas heap_defs = Get_def getValue_def Put_def putValue_def protoSetter_def
  setPrototypeOf_def newObject_def andThen_def objectPrototype_def readData_def
  writeData_def requestData_def responseData_def setRequestData_def setResponseData_def
  ExecutionContext_def Let_def builtins_def functionObject_def

text \<open>
  Claim C5 asks that \<open>registerActiveRequest(r)\<close> put \<open>r\<close> into the active-requests
  collection, visible to \<open>getActiveRequest\<close> and \<open>getActiveRequests\<close>, and leave the
  active groups alone. The code does the opposite for every request and context: the
  active requests are unchanged (empty on a new context), \<open>getActiveRequest\<close> returns
  \<open>null\<close>, and the request is appended to the active groups.
\<close>

theorem registerActiveRequest_misfiled:
  "activeRequests (registerActiveRequest r this) = activeRequests this
   \<and> getActiveRequests (registerActiveRequest r this) = getActiveRequests this
   \<and> getActiveRequests (registerActiveRequest r (ExecutionContext h)) = []
   \<and> getActiveRequest (registerActiveRequest r this) (name r) = None
   \<and> activeGroups (registerActiveRequest r this) = activeGroups this @ [ActiveRequest r]
   \<and> getActiveGroups (registerActiveRequest r this) \<noteq> getActiveGroups this"
  by (simp add: registerActiveRequest_def getActiveRequests_def getActiveGroups_def
        getActiveRequest_None ExecutionContext_simps)

text \<open>
  With names that no object inherits, the context behaves as a dictionary: in the
  runtime of the examples a pair that was never written reads as \<open>null\<close>, a written
  record is read back, other pairs stay absent, and a second write to the same pair
  replaces the first record.
\<close>

lemma ordinary_names_round_trip:
  "responseData (ExecutionContext builtins) ''group1'' ''request1'' = Inr JNull
   \<and> requestData (ExecutionContext builtins) ''group1'' ''request1'' = Inr JNull
   \<and> (case setResponseData ''group1'' ''request1'' (JNumber 1) (ExecutionContext builtins) of
         Inl e \<Rightarrow> False
       | Inr ctx \<Rightarrow>
           responseData ctx ''group1'' ''request1'' = Inr (JNumber 1)
           \<and> responseData ctx ''group1'' ''request2'' = Inr JNull
           \<and> responseData ctx ''group2'' ''request1'' = Inr JNull
           \<and> requestData ctx ''group1'' ''request1'' = Inr JNull
           \<and> (case setResponseData ''group1'' ''request1'' (JNumber 2) ctx of
                 Inl e \<Rightarrow> False
               | Inr ctx' \<Rightarrow> responseData ctx' ''group1'' ''request1'' = Inr (JNumber 2)))
   \<and> (case setRequestData ''group1'' ''request1'' (JNumber 1) (ExecutionContext builtins) of
         Inl e \<Rightarrow> False
       | Inr ctx \<Rightarrow>
           requestData ctx ''group1'' ''request1'' = Inr (JNumber 1)
           \<and> responseData ctx ''group1'' ''request1'' = Inr JNull
           \<and> (case setRequestData ''group1'' ''request1'' (JNumber 2) ctx of
                 Inl e \<Rightarrow> False
               | Inr ctx' \<Rightarrow> requestData ctx' ''group1'' ''request1'' = Inr (JNumber 2)))"
  by (simp add: heap_defs)

text \<open>
  Claim C4 asks that a written record be read back and that a pair never written read
  as \<open>null\<close>, for every group id and request name. The two stores are object literals,
  and the code reads and assigns them with \<open>store[groupId][requestName]\<close>, which goes
  through the prototype chain. On a new context, nothing written:
  \<open>responseData('constructor', 'name')\<close> and \<open>requestData('constructor', 'name')\<close> return
  the string \<open>Object\<close> (the name of the \<open>Object\<close> function), not \<open>null\<close>. A record written
  to that pair is not read back: \<open>Object.name\<close> is not writable, the assignment is dropped
  and the context is as before. A record written under the group id \<open>__proto__\<close> lands on
  \<open>Object.prototype\<close> and is then read from pairs that were never written, in both
  stores.
\<close>

theorem inherited_names_break_round_trip:
  "responseData (ExecutionContext builtins) ''constructor'' ''name'' = Inr (JString ''Object'')
   \<and> requestData (ExecutionContext builtins) ''constructor'' ''name'' = Inr (JString ''Object'')
   \<and> (let ctx = ExecutionContext builtins;
           (stored, h) = newObject [(''statusCode'', JNumber 200)] (heap ctx)
       in case setResponseData ''constructor'' ''name'' (JObject stored) (ctx\<lparr>heap := h\<rparr>) of
            Inl e \<Rightarrow> False
          | Inr ctx' \<Rightarrow>
              ctx' = ctx\<lparr>heap := h\<rparr>
              \<and> responseData ctx' ''constructor'' ''name'' = Inr (JString ''Object'')
              \<and> responseData ctx' ''constructor'' ''name'' \<noteq> Inr (JObject stored))
   \<and> (let ctx = ExecutionContext builtins;
           (stored, h) = newObject [(''statusCode'', JNumber 200)] (heap ctx)
       in case setResponseData ''__proto__'' ''request1'' (JObject stored) (ctx\<lparr>heap := h\<rparr>) of
            Inl e \<Rightarrow> False
          | Inr ctx' \<Rightarrow>
              responseData ctx' ''toString'' ''request1'' = Inr (JObject stored)
              \<and> requestData ctx' ''toString'' ''request1'' = Inr (JObject stored)
              \<and> responseData ctx' ''request1'' ''statusCode'' = Inr (JNumber 200))"
  by (simp add: heap_defs)

text \<open>No builder call enforces unique request names: with the cursor at a group that
  already owns a request of the same name, \<open>addRequest\<close> succeeds and the group owns
  both.\<close>

lemma addRequest_same_name:
  assumes "tmpPositionId this \<noteq> []"
    and "findRequestGroup (calls this) (tmpPositionId this) = Some g"
    and "r' \<in> set (requests g)" and "name r' = name r"
  shows "\<exists>this'. addRequest (RequestValue r) this = (None, this')
         \<and> findRequestGroup (calls this') (tmpPositionId this) =
              Some (Group (group_id g) (requests g @ [r]) (children g))"
proof -
  have gid: "group_id g = tmpPositionId this"
    using assms(2) by (rule findRequestGroup_id)
  have upd: "findRequestGroup
               (updateRequestGroup (pushRequest r) (calls this) (tmpPositionId this))
               (tmpPositionId this) = Some (pushRequest r g)"
    using assms(2) gid by (intro findRequestGroup_update) (simp_all add: pushRequest_def)
  show ?thesis
    using assms upd by (simp add: addRequest_def pushRequest_def)
qed

text \<open>
  Claim C10 asks, beside that, that a later \<open>setRequestData\<close> or \<open>setResponseData\<close> for the
  same group id and request name replace the earlier record. A group is free to be
  called \<open>constructor\<close> and a request \<open>name\<close>: the builder accepts both, twice over. For
  that pair neither write stores anything: after two \<open>setRequestData\<close> calls
  \<open>requestData\<close> returns the string \<open>Object\<close>, not the later record, the same holds for the
  responses, and the context is as it was before the two writes.
\<close>

theorem later_record_for_inherited_name_is_dropped:
  "build [StartGroup ''constructor'', AddRequest (RequestValue (Request ''name'')),
          AddRequest (RequestValue (Request ''name''))]
     = \<lparr>calls = [Group ''constructor'' [Request ''name'', Request ''name''] []],
        tmpPositionId = ''constructor'', totalRequestGroups = 1\<rparr>
   \<and> (let ctx = ExecutionContext builtins;
           (earlier, h1) = newObject [(''body'', JString ''first'')] (heap ctx);
           (later, h2) = newObject [(''body'', JString ''second'')] h1
       in case setRequestData ''constructor'' ''name'' (JObject earlier) (ctx\<lparr>heap := h2\<rparr>) of
            Inl e \<Rightarrow> False
          | Inr ctx1 \<Rightarrow>
              (case setRequestData ''constructor'' ''name'' (JObject later) ctx1 of
                 Inl e \<Rightarrow> False
               | Inr ctx2 \<Rightarrow>
                   requestData ctx2 ''constructor'' ''name'' = Inr (JString ''Object'')
                   \<and> requestData ctx2 ''constructor'' ''name'' \<noteq> Inr (JObject later)
                   \<and> ctx2 = ctx\<lparr>heap := h2\<rparr>))
   \<and> (let ctx = ExecutionContext builtins;
           (earlier, h1) = newObject [(''body'', JString ''first'')] (heap ctx);
           (later, h2) = newObject [(''body'', JString ''second'')] h1
       in case setResponseData ''constructor'' ''name'' (JObject earlier) (ctx\<lparr>heap := h2\<rparr>) of
            Inl e \<Rightarrow> False
          | Inr ctx1 \<Rightarrow>
              (case setResponseData ''constructor'' ''name'' (JObject later) ctx1 of
                 Inl e \<Rightarrow> False
               | Inr ctx2 \<Rightarrow>
                   responseData ctx2 ''constructor'' ''name'' = Inr (JString ''Object'')
                   \<and> responseData ctx2 ''constructor'' ''name'' \<noteq> Inr (JObject later)
                   \<and> ctx2 = ctx\<lparr>heap := h2\<rparr>))"
  by (simp add: heap_defs build_def Rcoil_def startGroup_def addRequest_def
        createEmptyRequestGroup_def pushRequest_def pushChild_def Request_def)

section \<open>Properties of the request factories\<close>

text \<open>
  Claim C8. With a url library that accepts \<open>http://api.com/test\<close> and parses it into
  protocol \<open>http:\<close>, hostname \<open>api.com\<close> and path \<open>/test\<close>, \<open>Request.get\<close> yields an HTTP
  request whose settings have host \<open>api.com\<close>, method \<open>GET\<close>, protocol \<open>http:\<close> and path
  \<open>/test\<close>. For a string the library does not accept as a URI it raises an error. For a
  configuration object that lacks one of the own properties \<open>host\<close>, \<open>path\<close>, \<open>protocol\<close>
  or \<open>method\<close> it raises an error; the test is \<open>hasOwnProperty\<close>, so an object that has
  the four properties is accepted as the settings whatever their values, \<open>null\<close>
  included.
\<close>

theorem get_http_request:
  "(isUri lib ''http://api.com/test''
      \<and> parse lib ''http://api.com/test''
          = ParsedUrl (Some ''api.com'') (Some ''/test'') None None (Some ''http:'') \<longrightarrow>
      (\<exists>r. get lib n (ConfigString ''http://api.com/test'') = Inr r
         \<and> name r = n \<and> type' r = HTTP
         \<and> settings r = HttpSettings \<lparr>host = Some (Some ''api.com''),
              path = Some (Some ''/test''), port = Some None,
              protocol = Some (Some ''http:''), method' = Some (Some ''GET'')\<rparr>))
   \<and> (\<not> isUri lib s \<longrightarrow>
        get lib n (ConfigString s) = Inl (Error (''Invalid request url: '' @ s)))
   \<and> (\<not> hasOwnProperty (host c) \<or> \<not> hasOwnProperty (path c)
        \<or> \<not> hasOwnProperty (protocol c) \<or> \<not> hasOwnProperty (method' c) \<longrightarrow>
        get lib n (ConfigObject c)
          = Inl (Error ''Invalid request configuration. Missing parameters''))
   \<and> (hasOwnProperty (host c') \<and> hasOwnProperty (path c')
        \<and> hasOwnProperty (protocol c') \<and> hasOwnProperty (method' c') \<longrightarrow>
        get lib n (ConfigObject c')
          = Inr \<lparr>type' = HTTP, name = n, settings = HttpSettings c', inputFunc = None\<rparr>)"
  by (auto simp: get_def setGet_def setHttpRequest_def createHttpRequest_def Request_def
        orEmpty_def toUpperCase_def toUpperCaseChar_def Let_def)

theorem get_http_request_witness:
  "isUri \<lparr>isUri = (\<lambda>s. s = ''http://api.com/test''),
          parse = (\<lambda>s. ParsedUrl (Some ''api.com'') (Some ''/test'') None None (Some ''http:''))\<rparr>
     ''http://api.com/test''
   \<and> get \<lparr>isUri = (\<lambda>s. s = ''http://api.com/test''),
          parse = (\<lambda>s. ParsedUrl (Some ''api.com'') (Some ''/test'') None None (Some ''http:''))\<rparr>
        ''test'' (ConfigString ''http://api.com/test'')
      = Inr \<lparr>type' = HTTP, name = ''test'',
             settings = HttpSettings \<lparr>host = Some (Some ''api.com''),
               path = Some (Some ''/test''), port = Some None,
               protocol = Some (Some ''http:''), method' = Some (Some ''GET'')\<rparr>,
             inputFunc = None\<rparr>
   \<and> \<not> isUri \<lparr>isUri = (\<lambda>s. s = ''http://api.com/test''),
          parse = (\<lambda>s. ParsedUrl (Some ''api.com'') (Some ''/test'') None None (Some ''http:''))\<rparr>
        ''resd/asd*ads''
   \<and> get \<lparr>isUri = (\<lambda>s. s = ''http://api.com/test''),
          parse = (\<lambda>s. ParsedUrl (Some ''api.com'') (Some ''/test'') None None (Some ''http:''))\<rparr>
        ''test'' (ConfigString ''resd/asd*ads'')
      = Inl (Error ''Invalid request url: resd/asd*ads'')
   \<and> \<not> hasOwnProperty (path \<lparr>host = Some (Some ''api.com''), path = None, port = None,
            protocol = None, method' = Some (Some ''GET'')\<rparr>)
   \<and> get \<lparr>isUri = (\<lambda>s. s = ''http://api.com/test''),
          parse = (\<lambda>s. ParsedUrl (Some ''api.com'') (Some ''/test'') None None (Some ''http:''))\<rparr>
        ''test'' (ConfigObject \<lparr>host = Some (Some ''api.com''), path = None, port = None,
            protocol = None, method' = Some (Some ''GET'')\<rparr>)
      = Inl (Error ''Invalid request configuration. Missing parameters'')
   \<and> hasOwnProperty (host \<lparr>host = Some None, path = Some (Some ''/''), port = None,
            protocol = Some (Some ''http:''), method' = Some (Some ''GET'')\<rparr>)
   \<and> get \<lparr>isUri = (\<lambda>s. s = ''http://api.com/test''),
          parse = (\<lambda>s. ParsedUrl (Some ''api.com'') (Some ''/test'') None None (Some ''http:''))\<rparr>
        ''test'' (ConfigObject \<lparr>host = Some None, path = Some (Some ''/''), port = None,
            protocol = Some (Some ''http:''), method' = Some (Some ''GET'')\<rparr>)
      = Inr \<lparr>type' = HTTP, name = ''test'',
             settings = HttpSettings \<lparr>host = Some None, path = Some (Some ''/''), port = None,
               protocol = Some (Some ''http:''), method' = Some (Some ''GET'')\<rparr>,
             inputFunc = None\<rparr>"
  using get_http_request[of
      "\<lparr>isUri = (\<lambda>s. s = ''http://api.com/test''),
          parse = (\<lambda>s. ParsedUrl (Some ''api.com'') (Some ''/test'') None None (Some ''http:''))\<rparr>"
      "''test''" "''resd/asd*ads''"
      "\<lparr>host = Some (Some ''api.com''), path = None, port = None, protocol = None,
            method' = Some (Some ''GET'')\<rparr>"
      "\<lparr>host = Some None, path = Some (Some ''/''), port = None,
            protocol = Some (Some ''http:''), method' = Some (Some ''GET'')\<rparr>"]
  by (simp add: get_def setGet_def setHttpRequest_def createHttpRequest_def Request_def
        orEmpty_def toUpperCase_def toUpperCaseChar_def Let_def hasOwnProperty_def)

section \<open>Properties of runs\<close>

subsection \<open>Bookkeeping of the steps\<close>




lemma startedPlayers_StartPlayer: "startedPlayers (map StartPlayer gs) = map newPlayer gs"
  by (induction gs) simp_all










text \<open>The request handlers change nothing of the director but its context, and emit
  one event.\<close>

lemma requestCanceled_effect:
  assumes "requestCanceled g r now d = Inr (d', es)"
  shows "d' = d\<lparr>executionContext := executionContext d'\<rparr>"
    and "es = [Emit (RequestEnd (group_id g) r)]"
    and "activeRequests (executionContext d) = [] \<Longrightarrow> activeRequests (executionContext d') = []"
  using assms
  by (auto simp: requestCanceled_def andThen_def setResponseData_def newObject_def
        unregisterActiveRequests_def Let_def split: sum.splits)

lemma requestStarted_effect:
  assumes "requestStarted g r ro input now d = Inr (d', es)"
  shows "d' = d\<lparr>executionContext := executionContext d'\<rparr>"
    and "es = [Emit (RequestStart (group_id g) r)]"
    and "activeRequests (executionContext d) = [] \<Longrightarrow> activeRequests (executionContext d') = []"
  using assms
  by (auto simp: requestStarted_def andThen_def setRequestData_def newObject_def
        registerActiveRequest_def Let_def split: sum.splits if_splits)

lemma requestDone_effect:
  assumes "requestDone g r rsp out now d = Inr (d', es)"
  shows "d' = d\<lparr>executionContext := executionContext d'\<rparr>"
    and "es = [Emit (RequestEnd (group_id g) r)]"
    and "activeRequests (executionContext d) = [] \<Longrightarrow> activeRequests (executionContext d') = []"
  using assms
  by (auto simp: requestDone_def andThen_def setResponseData_def newObject_def
        unregisterActiveRequests_def Let_def split: sum.splits if_splits request_type.splits)







subsection \<open>The invariant\<close>









lemma start_run_simps:
  "totalGroups (the_director (start_run cb s)) = requestGroupsCount (rcoil (the_director s))"
  "tmpGroupsCounter (the_director (start_run cb s)) = 0"
  "endCallback (the_director (start_run cb s)) = cb"
  "aborted (the_director (start_run cb s)) = aborted (the_director s)"
  "rcoil (the_director (start_run cb s)) = rcoil (the_director s)"
  "executionContext (the_director (start_run cb s)) = executionContext (the_director s)"
  "players (start_run cb s) = players s @ map newPlayer (calls (rcoil (the_director s)))"
  "trace (start_run cb s) = trace s @ map StartPlayer (calls (rcoil (the_director s)))"
  by (simp_all add: start_run_def start_def startedPlayers_StartPlayer)

lemma new_run_simps:
  "rcoil (the_director (new_run coil h)) = coil"
  "players (new_run coil h) = []"
  "trace (new_run coil h) = []"
  "aborted (the_director (new_run coil h)) = False"
  "executionContext (the_director (new_run coil h)) = ExecutionContext h"
  by (simp_all add: new_run_def ExecutionDirector_def)






text \<open>A step appends to the trace, and a callback it invokes is the one the director
  holds.\<close>

lemma Callback_not_StartPlayer: "Callback c \<notin> set (map StartPlayer gs)"
  by auto





text \<open>No call ever adds to \<open>_activeRequests\<close>, so it is empty in every state of every
  run: once the flag is set, \<open>_isAborted\<close> finds no active request at any group-end.\<close>

lemma step_activeRequests:
  assumes "step a s = Some s'" and "activeRequests (executionContext (the_director s)) = []"
  shows "activeRequests (executionContext (the_director s')) = []"
proof (cases a)
  case (PlayerStart i)
  with assms show ?thesis
    by (auto simp: playerStart_def requestGroupStarted_def registerActiveGroup_def Let_def
          split: if_splits)
next
  case (InputCancel i j)
  with assms obtain d es where
    "requestCanceled (p_group (players s ! i)) (p_waiting (players s ! i) ! j) (clock s)
       (the_director s) = Inr (d, es)" "the_director s' = d"
    by (auto simp: inputCancel_def Let_def split: if_splits sum.splits)
  with requestCanceled_effect(3) assms(2) show ?thesis by blast
next
  case (InputSend i j input ro)
  with assms obtain d es where
    "requestStarted (p_group (players s ! i)) (p_waiting (players s ! i) ! j) ro input (clock s)
       (the_director s) = Inr (d, es)" "the_director s' = d"
    by (auto simp: inputSend_def Let_def split: if_splits sum.splits)
  with requestStarted_effect(3) assms(2) show ?thesis by blast
next
  case (TransportDone i j rsp out)
  with assms obtain d es where
    "requestDone (p_group (players s ! i)) (p_inflight (players s ! i) ! j) rsp out (clock s)
       (the_director s) = Inr (d, es)" "the_director s' = d"
    by (auto simp: transportDone_def Let_def split: if_splits sum.splits)
  with requestDone_effect(3) assms(2) show ?thesis by blast
next
  case (PlayerEnd i)
  with assms show ?thesis
    by (auto simp: playerEnd_def requestGroupDone_def isAborted_def unregisterActiveGroup_def
          Let_def split: if_splits)
next
  case CallAbort
  with assms show ?thesis by (auto simp: callAbort_def abort_def)
qed

lemma run_activeRequests:
  "run as s = Some s' \<Longrightarrow> activeRequests (executionContext (the_director s)) = [] \<Longrightarrow>
   activeRequests (executionContext (the_director s')) = []"
proof (induction as arbitrary: s)
  case Nil
  then show ?case by simp
next
  case (Cons a as)
  then show ?case
    by (auto split: option.splits dest: step_activeRequests)
qed

lemma aborted_group_end_always_emits_abort:
  assumes "run as (begin_run coil h cb) = Some s" and "aborted (the_director s)"
  shows "snd (requestGroupDone g (the_director s)) = [Emit Abort]"
proof -
  have "activeRequests (executionContext (the_director s)) = []"
    using assms(1) by (rule run_activeRequests)
       (simp add: begin_run_def start_run_simps new_run_simps ExecutionContext_simps)
  with assms(2) show ?thesis
    by (simp add: requestGroupDone_def isAborted_def getActiveRequests_def
          unregisterActiveGroup_def Let_def)
qed

lemmas run_defs = build_def Rcoil_def startGroup_def afterGroup_def addRequest_def
  fromTheBeginning_def createEmptyRequestGroup_def pushChild_def pushRequest_def begin_run_def
  start_run_def new_run_def since_def start_def ExecutionDirector_def newPlayer_def
  playerStart_def inputCancel_def inputSend_def transportDone_def playerEnd_def callAbort_def
  abort_def requestGroupStarted_def requestGroupDone_def isAborted_def requestStarted_def
  requestDone_def requestCanceled_def registerActiveGroup_def unregisterActiveGroup_def
  registerActiveRequest_def unregisterActiveRequests_def getActiveRequests_def
  requestGroupsCount_def removeAt_def inFlight_def bodyValue_def httpFields_def respValue_def
  heap_defs

lemmas example_defs = getRequest_def sent_def ok_def

subsection \<open>The completion callback\<close>




subsection \<open>Canceled requests\<close>

text \<open>With names that no object inherits the cancel handler does what is asked: in the
  run of a group \<open>test\<close> whose request \<open>test\<close> is canceled by its input callback, the
  context holds under that pair a record whose \<open>isCanceled\<close> is \<open>true\<close>, nothing was
  handed to the transport, and \<open>requestEnd\<close> was emitted for the request.\<close>

lemma canceled_request_recorded_for_ordinary_names:
  "\<exists>s s' a. run [PlayerStart 0] (begin_run (build cancelCalls) builtins (Some 0)) = Some s
      \<and> inputCancel 0 0 s = Some s'
      \<and> responseData (executionContext (the_director s')) ''test'' ''test'' = Inr (JObject a)
      \<and> Get (heap (executionContext (the_director s'))) a ''isCanceled'' = Inr (JBool True)
      \<and> transport s' = []
      \<and> trace s' = trace s @ [Emit (RequestEnd ''test'' (getRequest ''test'' ''/users'' (Some 1)))]"
  by (simp add: run_defs example_defs cancelCalls_def)

text \<open>The same run with the group called \<open>constructor\<close> and the request called
  \<open>name\<close>, both accepted by the builder: the cancel step is taken, nothing is handed to
  the transport and \<open>requestEnd\<close> is emitted, but what \<open>responseData\<close> returns for the
  pair is what it returned before the step.\<close>

lemma canceled_run_for_inherited_name:
  "\<exists>s s'. run [PlayerStart 0] (begin_run (build inheritedCalls) builtins (Some 0)) = Some s
      \<and> inputCancel 0 0 s = Some s'
      \<and> transport s' = []
      \<and> trace s' = trace s
           @ [Emit (RequestEnd ''constructor'' (getRequest ''name'' ''/users'' (Some 1)))]
      \<and> responseData (executionContext (the_director s')) ''constructor'' ''name''
           = Inr (JString ''Object'')
      \<and> responseData (executionContext (the_director s')) ''constructor'' ''name''
           = responseData (executionContext (the_director s)) ''constructor'' ''name''"
  by (simp add: run_defs example_defs inheritedCalls_def)

text \<open>
  Claim C6 asks that for every request whose input callback signals cancellation a
  response record with \<open>isCanceled = true\<close> be stored under the group id and the request
  name. The cancel handler \<open>_requestCanceled\<close> hands the record to \<open>setResponseData\<close>,
  which assigns it with \<open>store[groupId][requestName]\<close>. For the group \<open>constructor\<close> and
  the request \<open>name\<close> the assignment goes to the \<open>name\<close> property of the \<open>Object\<close>
  function, which is not writable, and is dropped: the handler returns and emits
  \<open>requestEnd\<close>, but \<open>responseData('constructor', 'name')\<close> is the string \<open>Object\<close>; what
  the store holds under \<open>constructor\<close> is the \<open>Object\<close> function, and it has no
  \<open>isCanceled\<close>.
\<close>

theorem canceled_request_record_dropped:
  "(case requestCanceled (Group ''constructor'' [getRequest ''name'' ''/users'' (Some 1)] [])
           (getRequest ''name'' ''/users'' (Some 1)) 1
           (ExecutionDirector (build inheritedCalls) False builtins) of
      Inl e \<Rightarrow> False
    | Inr (d, es) \<Rightarrow>
        es = [Emit (RequestEnd ''constructor'' (getRequest ''name'' ''/users'' (Some 1)))]
        \<and> responseData (executionContext d) ''constructor'' ''name'' = Inr (JString ''Object'')
        \<and> Get (heap (executionContext d)) (responses' (executionContext d)) ''constructor''
             = Inr (JObject 1)
        \<and> Get (heap (executionContext d)) 1 ''isCanceled'' = Inr JUndefined)"
  by (simp add: run_defs example_defs inheritedCalls_def)

subsection \<open>Abort\<close>

text \<open>
  Claim C2 asks that, after \<open>abort()\<close>, the abort event fire only once every active
  request has drained. With two root groups of one request each, both requests
  dispatched, \<open>abort()\<close> called, and then the first request and its group completing, the
  director emits the abort event while the request of the second group is still in
  flight: \<open>getActiveRequests()\<close> is empty because \<open>registerActiveRequest\<close> filed the
  requests under the active groups.
\<close>

theorem abort_event_with_request_in_flight:
  "\<exists>s. run [PlayerStart 0, InputSend 0 0 None sent, PlayerStart 1, InputSend 1 0 None sent,
             CallAbort, TransportDone 0 0 ok (Some ''[]''), PlayerEnd 0]
          (begin_run (build parallelCalls) builtins (Some 0)) = Some s
      \<and> last (trace s) = Emit Abort
      \<and> inFlight s = [getRequest ''requestB'' ''/users'' None]
      \<and> getActiveRequests (executionContext (the_director s)) = []"
  by (simp add: run_defs example_defs parallelCalls_def)

end
